theory Spec2Isabelle
  imports Complex_Main "HOL-Library.AList"
begin

section \<open>Python values\<close>

text \<open>
  The analysis pipeline of \<^verbatim>\<open>potential_app/views.py\<close> works on the loosely typed
  values that Django stores in JSON fields: \<^verbatim>\<open>None\<close>, numbers, strings, lists and
  dictionaries with string keys. Numbers are taken up to Python's \<^verbatim>\<open>==\<close>: an
  \<^verbatim>\<open>int\<close>, a \<^verbatim>\<open>bool\<close> and a finite \<^verbatim>\<open>float\<close> are all rationals. The sum of two
  numbers of a document is taken exactly (the rounding of a float sum is not modelled);
  the product and the quotient of the area columns, which are floating-point, are rounded
  as the machine rounds them. A dictionary is an
  association list in insertion order; a well-formed one has distinct keys.
\<close>

datatype pyval =
    PNone
  | PNum rat
  | PStr string
  | PList "pyval list"
  | PDict "(string \<times> pyval) list"

datatype exn =
    AttributeError
  | TypeError
  | DoesNotExist
  | StageError string

type_synonym 'a outcome = "exn + 'a"

text \<open>Truth value of a Python object, as \<^verbatim>\<open>or\<close> and \<^verbatim>\<open>if\<close> test it.\<close>

fun truthy :: "pyval \<Rightarrow> bool" where
  "truthy PNone = False"
| "truthy (PNum r) = (r \<noteq> 0)"
| "truthy (PStr s) = (s \<noteq> [])"
| "truthy (PList xs) = (xs \<noteq> [])"
| "truthy (PDict kvs) = (kvs \<noteq> [])"

text \<open>\<^verbatim>\<open>v or d\<close>\<close>

definition py_or :: "pyval \<Rightarrow> pyval \<Rightarrow> pyval" where
  "py_or v d = (if truthy v then v else d)"

text \<open>\<^verbatim>\<open>a + b\<close>: numbers add, strings and lists concatenate, anything else raises.\<close>

fun py_add :: "pyval \<Rightarrow> pyval \<Rightarrow> pyval outcome" where
  "py_add (PNum a) (PNum b) = Inr (PNum (a + b))"
| "py_add (PStr a) (PStr b) = Inr (PStr (a @ b))"
| "py_add (PList a) (PList b) = Inr (PList (a @ b))"
| "py_add _ _ = Inl TypeError"

text \<open>\<^verbatim>\<open>v.items()\<close>: only a dictionary has the method.\<close>

fun py_items :: "pyval \<Rightarrow> (string \<times> pyval) list outcome" where
  "py_items (PDict kvs) = Inr kvs"
| "py_items _ = Inl AttributeError"

text \<open>
  \<^verbatim>\<open>for item in v\<close>: a list yields its elements, a dictionary its keys, a string its
  characters; \<^verbatim>\<open>None\<close> and numbers are not iterable.
\<close>

fun py_iter :: "pyval \<Rightarrow> pyval list outcome" where
  "py_iter (PList xs) = Inr xs"
| "py_iter (PDict kvs) = Inr (map (\<lambda>kv. PStr (fst kv)) kvs)"
| "py_iter (PStr s) = Inr (map (\<lambda>c. PStr [c]) s)"
| "py_iter _ = Inl TypeError"

text \<open>\<^verbatim>\<open>d.get(k, dflt)\<close> and \<^verbatim>\<open>d.setdefault(k, dflt)\<close> on a dictionary.\<close>

definition dict_get :: "(string \<times> pyval) list \<Rightarrow> string \<Rightarrow> pyval \<Rightarrow> pyval" where
  "dict_get d k dflt = (case map_of d k of Some v \<Rightarrow> v | None \<Rightarrow> dflt)"

definition setdefault :: "string \<Rightarrow> pyval \<Rightarrow> (string \<times> pyval) list \<Rightarrow> (string \<times> pyval) list" where
  "setdefault k dflt d = (case map_of d k of Some v \<Rightarrow> d | None \<Rightarrow> d @ [(k, dflt)])"

section \<open>The stored analysis and the stage functions\<close>

text \<open>
  A row of \<^verbatim>\<open>LandAnalysis\<close>, with the fields that \<^verbatim>\<open>ProcessAnalysisView.get\<close> reads and
  writes. The two area fields are numeric columns (a number or NULL). A date field is
  kept as its \<^verbatim>\<open>%Y-%m-%d\<close> rendering; \<open>None\<close> is a NULL date, on which
  \<^verbatim>\<open>.strftime\<close> raises.
\<close>

record land_analysis =
  latitude :: pyval
  longitude :: pyval
  area_m2 :: "rat option"
  area_ha :: "rat option"
  start_date :: "string option"
  end_date :: "string option"
  pv_efficiency :: pyval
  pv_performance_ratio :: pyval
  pv_land_coverage :: pyval
  pv_system_efficiency :: pyval
  wind_rated_power_kw :: pyval
  wind_rotor_diameter_m :: pyval
  wind_hub_height_m :: pyval
  wind_cut_in_ms :: pyval
  wind_rated_ws_ms :: pyval
  wind_cut_out_ms :: pyval
  wind_alpha :: pyval
  wind_system_efficiency :: pyval
  dc_voltage :: pyval
  soil_data :: pyval
  crop_recommendations :: pyval
  energy_results :: pyval

text \<open>
  The functions imported from \<^verbatim>\<open>utils.soil_analysis\<close> and \<^verbatim>\<open>utils.energy_estimation\<close>
  are parameters of the pipeline: each call either raises (\<open>Inl\<close>) or returns a
  value (\<open>Inr\<close>), and leaves its arguments as they are.
  \<^verbatim>\<open>estimate_energy_potential\<close> is called with keyword arguments only, so it takes
  the dictionary of them.
\<close>

record stages =
  get_soil_data :: "pyval \<Rightarrow> pyval \<Rightarrow> pyval outcome"
  recommend_crops :: "pyval \<Rightarrow> pyval outcome"
  estimate_energy_potential :: "(string \<times> pyval) list \<Rightarrow> pyval outcome"
  estimate_agri_revenue :: "pyval \<Rightarrow> pyval \<Rightarrow> pyval outcome"
  calculate_mixed_potential :: "pyval \<Rightarrow> pyval \<Rightarrow> pyval \<Rightarrow> pyval outcome"

section \<open>\<^verbatim>\<open>ProcessAnalysisView.get\<close>, stage by stage\<close>

subsection \<open>Soil data\<close>

text \<open>\<^verbatim>\<open>isinstance(value, dict)\<close>\<close>

fun is_dict :: "pyval \<Rightarrow> bool" where
  "is_dict (PDict d) = True"
| "is_dict _ = False"

definition layers :: "pyval \<Rightarrow> pyval" where
  "layers v =
     (if is_dict v then v
      else PDict [(''0-5cm'', v), (''5-15cm'', v), (''15-30cm'', v)])"

text \<open>The loop \<^verbatim>\<open>for prop, value in raw_soil.items(): soil_data[prop] = ...\<close>\<close>

definition build_soil_data :: "(string \<times> pyval) list \<Rightarrow> (string \<times> pyval) list" where
  "build_soil_data raw = fold (\<lambda>(prop, v) soil. AList.update prop (layers v) soil) raw []"

text \<open>
  \<^verbatim>\<open>raw_soil = get_soil_data(...) or {}\<close> followed by the loop. Nothing here is inside
  a \<^verbatim>\<open>try\<close> of its own: an exception leaves through the handler of the whole view.
\<close>

definition soil_stage :: "stages \<Rightarrow> land_analysis \<Rightarrow> pyval outcome" where
  "soil_stage st a =
     (case get_soil_data st (latitude a) (longitude a) of
        Inl e \<Rightarrow> Inl e
      | Inr r \<Rightarrow>
          (case py_items (py_or r (PDict [])) of
             Inl e \<Rightarrow> Inl e
           | Inr raw \<Rightarrow> Inr (PDict (build_soil_data raw))))"

subsection \<open>Crop recommendations\<close>

definition crop_stage :: "stages \<Rightarrow> pyval \<Rightarrow> pyval" where
  "crop_stage st soil =
     (case recommend_crops st soil of
        Inl e \<Rightarrow> PList []
      | Inr r \<Rightarrow> py_or r (PList []))"

subsection \<open>Energy estimation\<close>

text \<open>
  The area columns hold floating-point numbers, and \<^verbatim>\<open>*\<close> and \<^verbatim>\<open>/\<close> on them are the
  operations of IEEE 754 binary64: the exact product or quotient, rounded to the nearest
  double, ties to the even significand. A double is a rational \<^verbatim>\<open>m * 2^e\<close> with
  \<^verbatim>\<open>|m| < 2^53\<close> and \<^verbatim>\<open>e >= -1074\<close>. Results beyond the largest double (overflow to
  infinity) are outside the model.
\<close>

text \<open>The number of binary digits of a natural number.\<close>

fun bit_length :: "nat \<Rightarrow> nat" where
  "bit_length n = (if n = 0 then 0 else Suc (bit_length (n div 2)))"

declare bit_length.simps [simp del]

definition pow2 :: "int \<Rightarrow> rat" where
  "pow2 e = (if 0 \<le> e then 2 ^ nat e else 1 / 2 ^ nat (- e))"

text \<open>Rounding to the nearest integer, a tie going to the even one.\<close>

definition round_half_even :: "rat \<Rightarrow> int" where
  "round_half_even x =
     (let f = \<lfloor>x\<rfloor>; r = x - of_int f
      in if r < 1 / 2 then f
         else if 1 / 2 < r then f + 1
         else if even f then f else f + 1)"

text \<open>For \<^verbatim>\<open>x > 0\<close>, the integer \<^verbatim>\<open>k\<close> with \<^verbatim>\<open>2^k <= x < 2^(k+1)\<close>.\<close>

definition binary_exponent :: "rat \<Rightarrow> int" where
  "binary_exponent x =
     (if 1 \<le> x then int (bit_length (nat \<lfloor>x\<rfloor>)) - 1
      else - int (bit_length (nat (\<lceil>1 / x\<rceil> - 1))))"

text \<open>
  The double nearest to \<^verbatim>\<open>x\<close>: 53 significant bits for a normal number, a multiple of
  \<^verbatim>\<open>2^-1074\<close> for a subnormal one.
\<close>

definition round_double :: "rat \<Rightarrow> rat" where
  "round_double x =
     (if x = 0 then 0
      else let e = max (binary_exponent \<bar>x\<bar> - 52) (- 1074);
               m = round_half_even (\<bar>x\<bar> / pow2 e)
           in sgn x * of_int m * pow2 e)"

text \<open>
  \<^verbatim>\<open>area_m2 = analysis.area_m2 or (analysis.area_ha * 10000 if analysis.area_ha else 0)\<close>
  and \<^verbatim>\<open>area_ha = area_m2 / 10000 if area_m2 else 0\<close>. NULL and 0 are the falsy
  values of a numeric field.
\<close>

definition num_or :: "rat option \<Rightarrow> rat \<Rightarrow> rat" where
  "num_or x d = (case x of None \<Rightarrow> d | Some r \<Rightarrow> if r \<noteq> 0 then r else d)"

definition area_m2_of :: "land_analysis \<Rightarrow> rat" where
  "area_m2_of a =
     num_or (area_m2 a)
       (case area_ha a of
          None \<Rightarrow> 0
        | Some h \<Rightarrow> if h \<noteq> 0 then round_double (h * 10000) else 0)"

definition area_ha_of :: "land_analysis \<Rightarrow> rat" where
  "area_ha_of a = (if area_m2_of a \<noteq> 0 then round_double (area_m2_of a / 10000) else 0)"

definition strftime :: "string option \<Rightarrow> string outcome" where
  "strftime d = (case d of None \<Rightarrow> Inl AttributeError | Some s \<Rightarrow> Inr s)"

definition energy_kwargs :: "land_analysis \<Rightarrow> string \<Rightarrow> string \<Rightarrow> (string \<times> pyval) list" where
  "energy_kwargs a sd ed =
     [(''lat'', latitude a),
      (''lon'', longitude a),
      (''start_date'', PStr sd),
      (''end_date'', PStr ed),
      (''area_m2'', PNum (area_m2_of a)),
      (''pv_config'', PDict
         [(''efficiency'', pv_efficiency a),
          (''performance_ratio'', pv_performance_ratio a),
          (''land_coverage'', pv_land_coverage a),
          (''system_efficiency'', pv_system_efficiency a)]),
      (''wind_config'', PDict
         [(''rated_power_kw'', wind_rated_power_kw a),
          (''rotor_diameter_m'', wind_rotor_diameter_m a),
          (''hub_height_m'', wind_hub_height_m a),
          (''cut_in_ms'', wind_cut_in_ms a),
          (''rated_ws_ms'', wind_rated_ws_ms a),
          (''cut_out_ms'', wind_cut_out_ms a),
          (''alpha'', wind_alpha a),
          (''system_efficiency'', wind_system_efficiency a)]),
      (''dc_voltage'', dc_voltage a)]"

text \<open>The body of the \<^verbatim>\<open>try\<close>, before \<^verbatim>\<open>or {}\<close>.\<close>

definition energy_call :: "stages \<Rightarrow> land_analysis \<Rightarrow> pyval outcome" where
  "energy_call st a =
     (case strftime (start_date a) of
        Inl e \<Rightarrow> Inl e
      | Inr sd \<Rightarrow>
          (case strftime (end_date a) of
             Inl e \<Rightarrow> Inl e
           | Inr ed \<Rightarrow> estimate_energy_potential st (energy_kwargs a sd ed)))"

definition energy_stage :: "stages \<Rightarrow> land_analysis \<Rightarrow> pyval" where
  "energy_stage st a =
     (case energy_call st a of
        Inl e \<Rightarrow> PDict []
      | Inr r \<Rightarrow> py_or r (PDict []))"

subsection \<open>Normalisation of the energy results\<close>

definition energy_defaults :: "(string \<times> pyval) list \<Rightarrow> (string \<times> pyval) list" where
  "energy_defaults d =
     setdefault ''daily_plot'' (PStr '''')
      (setdefault ''hourly_plot'' (PStr '''')
        (setdefault ''monthly_breakdown'' (PList [])
          (setdefault ''total_revenue'' (PNum 0)
            (setdefault ''wind_energy_kwh'' (PNum 0)
              (setdefault ''pv_energy_kwh'' (PNum 0)
                (setdefault ''total_energy_kwh'' (PNum 0) d))))))"

text \<open>
  One bucket of the monthly breakdown. Python evaluates the default argument
  \<^verbatim>\<open>item.get("pv_energy_kwh", 0) + item.get("wind_energy_kwh", 0)\<close> before it looks
  \<^verbatim>\<open>"energy"\<close> up, so the sum is computed (and may raise) for every bucket.
\<close>

definition normalize_item :: "pyval \<Rightarrow> pyval outcome" where
  "normalize_item item =
     (case item of
        PDict d \<Rightarrow>
          (case py_add (dict_get d ''pv_energy_kwh'' (PNum 0))
                       (dict_get d ''wind_energy_kwh'' (PNum 0)) of
             Inl e \<Rightarrow> Inl e
           | Inr s \<Rightarrow> Inr (PDict
               [(''month'', dict_get d ''month'' (PStr '''')),
                (''energy'', dict_get d ''energy'' s),
                (''revenue'', dict_get d ''revenue'' (dict_get d ''revenue_inr'' (PNum 0))),
                (''pv_energy_kwh'', dict_get d ''pv_energy_kwh'' (PNum 0)),
                (''wind_energy_kwh'', dict_get d ''wind_energy_kwh'' (PNum 0))]))
      | _ \<Rightarrow> Inl AttributeError)"

fun normalize_months :: "pyval list \<Rightarrow> pyval list outcome" where
  "normalize_months [] = Inr []"
| "normalize_months (item # items) =
     (case normalize_item item of
        Inl e \<Rightarrow> Inl e
      | Inr b \<Rightarrow>
          (case normalize_months items of
             Inl e \<Rightarrow> Inl e
           | Inr bs \<Rightarrow> Inr (b # bs)))"

text \<open>
  The seven \<^verbatim>\<open>setdefault\<close> calls, the loop, and
  \<^verbatim>\<open>energy_results["monthly_breakdown"] = normalized_months\<close>. None of it is inside
  a \<^verbatim>\<open>try\<close> of its own.
\<close>

definition normalize_energy :: "pyval \<Rightarrow> (string \<times> pyval) list outcome" where
  "normalize_energy er =
     (case er of
        PDict d \<Rightarrow>
          (case py_iter (dict_get (energy_defaults d) ''monthly_breakdown'' (PList [])) of
             Inl e \<Rightarrow> Inl e
           | Inr items \<Rightarrow>
               (case normalize_months items of
                  Inl e \<Rightarrow> Inl e
                | Inr ms \<Rightarrow>
                    Inr (AList.update ''monthly_breakdown'' (PList ms) (energy_defaults d))))
      | _ \<Rightarrow> Inl AttributeError)"

subsection \<open>Agricultural and mixed revenue\<close>

definition agri_default :: pyval where
  "agri_default = PDict [(''details'', PList [])]"

definition mixed_default :: pyval where
  "mixed_default = PDict [(''scenarios'', PList []), (''best_scenario'', PDict [])]"

definition agri_stage :: "stages \<Rightarrow> pyval \<Rightarrow> rat \<Rightarrow> pyval" where
  "agri_stage st crops ha =
     (case estimate_agri_revenue st crops (PNum ha) of
        Inl e \<Rightarrow> agri_default
      | Inr r \<Rightarrow> py_or r agri_default)"

definition mixed_stage :: "stages \<Rightarrow> (string \<times> pyval) list \<Rightarrow> pyval \<Rightarrow> rat \<Rightarrow> pyval" where
  "mixed_stage st er agri ha =
     (case calculate_mixed_potential st (PDict er) agri (PNum ha) of
        Inl e \<Rightarrow> mixed_default
      | Inr r \<Rightarrow> py_or r mixed_default)"

text \<open>The result document that is assigned to \<^verbatim>\<open>analysis.energy_results\<close>.\<close>

definition result_document ::
  "stages \<Rightarrow> (string \<times> pyval) list \<Rightarrow> pyval \<Rightarrow> rat \<Rightarrow> (string \<times> pyval) list" where
  "result_document st er crops ha =
     (let agri = agri_stage st crops ha;
          mixed = mixed_stage st er agri ha
      in AList.update ''mixed_analysis'' mixed (AList.update ''agri_revenue'' agri er))"

subsection \<open>The view\<close>

text \<open>Everything after the soil stage, given the soil data it produced.\<close>

definition after_soil :: "stages \<Rightarrow> land_analysis \<Rightarrow> pyval \<Rightarrow> land_analysis outcome" where
  "after_soil st a soil =
     (let crops = crop_stage st soil
      in case normalize_energy (energy_stage st a) of
           Inl e \<Rightarrow> Inl e
         | Inr er \<Rightarrow>
             Inr (a\<lparr>soil_data := soil,
                    crop_recommendations := crops,
                    energy_results := PDict (result_document st er crops (area_ha_of a))\<rparr>))"

text \<open>The body of the outer \<^verbatim>\<open>try\<close>, from the soil stage to the row that is saved.\<close>

definition run_pipeline :: "stages \<Rightarrow> land_analysis \<Rightarrow> land_analysis outcome" where
  "run_pipeline st a =
     (case soil_stage st a of
        Inl e \<Rightarrow> Inl e
      | Inr soil \<Rightarrow> after_soil st a soil)"

datatype response = RedirectResults nat | RedirectIndex

text \<open>
  The view over the table of analyses: a missing row and any exception that reaches the
  outer handlers both redirect to the index page and save nothing; otherwise the row is
  saved and the browser is sent to the results page.
\<close>

definition ProcessAnalysisView_get ::
  "stages \<Rightarrow> (nat \<Rightarrow> land_analysis option) \<Rightarrow> nat \<Rightarrow> response \<times> (nat \<Rightarrow> land_analysis option)" where
  "ProcessAnalysisView_get st db analysis_id =
     (case db analysis_id of
        None \<Rightarrow> (RedirectIndex, db)
      | Some a \<Rightarrow>
          (case run_pipeline st a of
             Inl e \<Rightarrow> (RedirectIndex, db)
           | Inr a' \<Rightarrow> (RedirectResults analysis_id, db(analysis_id \<mapsto> a'))))"

section \<open>The scenario optimizer\<close>

text \<open>
  Modelled from the spec: \<^verbatim>\<open>calculate_mixed_potential\<close> lives in
  \<^verbatim>\<open>utils/energy_estimation.py\<close>, which is not among the sources; the view only calls
  it. The definitions below follow section 4.4 of the specification: the five allocation
  fractions, revenue linear in the fraction, and the best scenario the one of greatest
  revenue, an exact tie going to the scenario closer to one half.
\<close>

record scenario =
  energy_fraction :: rat
  agri_fraction :: rat
  revenue :: rat

record mixed_analysis =
  scenarios :: "scenario list"
  best_scenario :: scenario

definition allocation_fractions :: "rat list" where
  "allocation_fractions = [0, 1 / 4, 1 / 2, 3 / 4, 1]"

definition scenario_for :: "rat \<Rightarrow> rat \<Rightarrow> rat \<Rightarrow> scenario" where
  "scenario_for energy_revenue agri_revenue f =
     \<lparr>energy_fraction = f, agri_fraction = 1 - f,
      revenue = f * energy_revenue + (1 - f) * agri_revenue\<rparr>"

definition better :: "scenario \<Rightarrow> scenario \<Rightarrow> scenario" where
  "better best s =
     (if revenue best < revenue s
         \<or> (revenue s = revenue best
             \<and> \<bar>energy_fraction s - 1 / 2\<bar> < \<bar>energy_fraction best - 1 / 2\<bar>)
      then s else best)"

definition optimize :: "rat \<Rightarrow> rat \<Rightarrow> rat \<Rightarrow> mixed_analysis" where
  "optimize energy_revenue agri_revenue area_ha_arg =
     (let ss = map (scenario_for energy_revenue agri_revenue) allocation_fractions
      in \<lparr>scenarios = ss,
          best_scenario = fold (\<lambda>s best. better best s) ss
                            (scenario_for energy_revenue agri_revenue 0)\<rparr>)"

section \<open>Vocabulary of the properties and concrete inputs\<close>

text \<open>A stage call that raises, or returns a falsy value.\<close>

fun failed :: "pyval outcome \<Rightarrow> bool" where
  "failed (Inl e) = True"
| "failed (Inr r) = (\<not> truthy r)"

text \<open>The energy fields of a document in which nothing was produced.\<close>

definition zero_energy :: "(string \<times> pyval) list" where
  "zero_energy =
     [(''total_energy_kwh'', PNum 0), (''pv_energy_kwh'', PNum 0),
      (''wind_energy_kwh'', PNum 0), (''total_revenue'', PNum 0),
      (''monthly_breakdown'', PList []), (''hourly_plot'', PStr ''''),
      (''daily_plot'', PStr '''')]"

text \<open>
  A run in which every stage answers, except the mixed analysis, which raises: the
  gateway gives one scalar soil property and one per-layer property, and the energy
  estimator one monthly bucket that names its revenue \<^verbatim>\<open>revenue_inr\<close>.
\<close>

definition raw_soil0 :: "(string \<times> pyval) list" where
  "raw_soil0 = [(''phh2o'', PNum 65), (''clay'', PDict [(''0-5cm'', PNum 20)])]"

definition bucket0 :: pyval where
  "bucket0 = PDict [(''month'', PStr ''2024-01''), (''pv_energy_kwh'', PNum 3),
                    (''wind_energy_kwh'', PNum 4), (''revenue_inr'', PNum 35)]"

definition stages_ok :: stages where
  "stages_ok =
     \<lparr>get_soil_data = (\<lambda>lat lon. Inr (PDict raw_soil0)),
      recommend_crops = (\<lambda>soil. Inr (PList [PStr ''wheat''])),
      estimate_energy_potential = (\<lambda>kw. Inr (PDict
         [(''total_revenue'', PNum 1000), (''monthly_breakdown'', PList [bucket0])])),
      estimate_agri_revenue = (\<lambda>crops ha. Inr (PDict
         [(''details'', PList []), (''total'', PNum 600)])),
      calculate_mixed_potential = (\<lambda>er agri ha. Inl (StageError ''mixed''))\<rparr>"

definition analysis0 :: land_analysis where
  "analysis0 =
     \<lparr>latitude = PNum 12, longitude = PNum 77, area_m2 = None, area_ha = Some 2,
      start_date = Some ''2024-01-01'', end_date = Some ''2024-12-31'',
      pv_efficiency = PNum (1 / 5), pv_performance_ratio = PNum (3 / 4),
      pv_land_coverage = PNum (1 / 2), pv_system_efficiency = PNum (9 / 10),
      wind_rated_power_kw = PNum 2000, wind_rotor_diameter_m = PNum 90,
      wind_hub_height_m = PNum 80, wind_cut_in_ms = PNum 3, wind_rated_ws_ms = PNum 12,
      wind_cut_out_ms = PNum 25, wind_alpha = PNum (1 / 7),
      wind_system_efficiency = PNum (9 / 10), dc_voltage = PNum 48,
      soil_data = PNone, crop_recommendations = PNone, energy_results = PNone\<rparr>"

definition db0 :: "nat \<Rightarrow> land_analysis option" where
  "db0 = (\<lambda>i. if i = 1 then Some analysis0 else None)"

text \<open>The same run with one stage raising.\<close>

definition stages_soil_timeout :: stages where
  "stages_soil_timeout =
     stages_ok\<lparr>get_soil_data := (\<lambda>lat lon. Inl (StageError ''timeout''))\<rparr>"

definition stages_crops_raise :: stages where
  "stages_crops_raise =
     stages_ok\<lparr>recommend_crops := (\<lambda>soil. Inl (StageError ''crops''))\<rparr>"

definition stages_energy_timeout :: stages where
  "stages_energy_timeout =
     stages_ok\<lparr>estimate_energy_potential := (\<lambda>kw. Inl (StageError ''timeout''))\<rparr>"

definition stages_agri_raise :: stages where
  "stages_agri_raise =
     stages_ok\<lparr>estimate_agri_revenue := (\<lambda>crops ha. Inl (StageError ''agri''))\<rparr>"

text \<open>A row whose only stored area is negative, and one whose only stored area is 3 square metres.\<close>

definition analysis_neg :: land_analysis where
  "analysis_neg = analysis0\<lparr>area_m2 := Some (- 5), area_ha := None\<rparr>"

definition analysis_three :: land_analysis where
  "analysis_three = analysis0\<lparr>area_m2 := Some 3, area_ha := None\<rparr>"

text \<open>Stages that answer with the area they were given.\<close>

definition stages_echo :: stages where
  "stages_echo =
     \<lparr>get_soil_data = (\<lambda>lat lon. Inr (PDict raw_soil0)),
      recommend_crops = (\<lambda>soil. Inr (PList [PStr ''wheat''])),
      estimate_energy_potential = (\<lambda>kw. Inr (PDict
         [(''area_m2'', dict_get kw ''area_m2'' PNone)])),
      estimate_agri_revenue = (\<lambda>crops ha. Inr (PDict
         [(''details'', PList []), (''area_ha'', ha)])),
      calculate_mixed_potential = (\<lambda>er agri ha. Inr (PDict
         [(''scenarios'', PList []), (''area_ha'', ha)]))\<rparr>"


text \<open>The energy results of the run above, after normalisation.\<close>

definition normalized0 :: "(string \<times> pyval) list" where
  "normalized0 =
     [(''total_revenue'', PNum 1000),
      (''monthly_breakdown'', PList
         [PDict [(''month'', PStr ''2024-01''), (''energy'', PNum 7), (''revenue'', PNum 35),
                 (''pv_energy_kwh'', PNum 3), (''wind_energy_kwh'', PNum 4)]]),
      (''total_energy_kwh'', PNum 0), (''pv_energy_kwh'', PNum 0),
      (''wind_energy_kwh'', PNum 0), (''hourly_plot'', PStr ''''),
      (''daily_plot'', PStr '''')]"

section \<open>Dictionaries and the shape of a run\<close>

lemma update_fresh: "k \<notin> fst ` set al \<Longrightarrow> AList.update k v al = al @ [(k, v)]"
  by (induction al) auto

lemma fold_update_distinct:
  "distinct (map fst raw) \<Longrightarrow> fst ` set raw \<inter> fst ` set acc = {} \<Longrightarrow>
   fold (\<lambda>(prop, v) soil. AList.update prop (f v) soil) raw acc
     = acc @ map (\<lambda>(prop, v). (prop, f v)) raw"
proof (induction raw arbitrary: acc)
  case Nil
  then show ?case by simp
next
  case (Cons kv raw)
  obtain k v where kv: "kv = (k, v)" by (cases kv)
  from Cons.prems have fresh: "k \<notin> fst ` set acc" by (auto simp: kv)
  have d: "distinct (map fst raw)" using Cons.prems by simp
  have disj: "fst ` set raw \<inter> fst ` set (acc @ [(k, f v)]) = {}"
    using Cons.prems by (auto simp: kv)
  show ?case
    using Cons.IH [OF d disj] by (simp add: kv update_fresh [OF fresh])
qed

lemma build_soil_data_map:
  "distinct (map fst raw) \<Longrightarrow> build_soil_data raw = map (\<lambda>(prop, v). (prop, layers v)) raw"
  unfolding build_soil_data_def using fold_update_distinct [of raw "[]" layers] by simp

lemma map_of_build_soil_data:
  assumes "distinct (map fst raw)" and "(prop, v) \<in> set raw"
  shows "map_of (build_soil_data raw) prop = Some (layers v)"
proof -
  have "map_of raw prop = Some v" using assms by simp
  then have "map_of (map (\<lambda>(p, v). (p, layers v)) raw) prop = Some (layers v)"
    by (simp add: map_of_map)
  then show ?thesis by (simp add: build_soil_data_map [OF assms(1)])
qed

lemma view_saved:
  assumes "ProcessAnalysisView_get st db i = (RedirectResults j, db')"
  shows "\<exists>a a'. db i = Some a \<and> run_pipeline st a = Inr a' \<and> db' = db(i \<mapsto> a') \<and> j = i"
  using assms by (auto simp: ProcessAnalysisView_get_def split: option.splits sum.splits)

lemma run_pipeline_Inr:
  assumes "run_pipeline st a = Inr a'"
  shows "\<exists>soil er. soil_stage st a = Inr soil
           \<and> normalize_energy (energy_stage st a) = Inr er
           \<and> a' = a\<lparr>soil_data := soil,
                     crop_recommendations := crop_stage st soil,
                     energy_results :=
                       PDict (result_document st er (crop_stage st soil) (area_ha_of a))\<rparr>"
  using assms by (auto simp: run_pipeline_def after_soil_def Let_def split: sum.splits)

lemma map_of_result_document:
  "map_of (result_document st er crops ha) =
     (map_of er)(''agri_revenue'' \<mapsto> agri_stage st crops ha,
                 ''mixed_analysis'' \<mapsto> mixed_stage st er (agri_stage st crops ha) ha)"
  by (simp add: result_document_def Let_def update_conv')

lemma normalize_months_all2:
  "normalize_months items = Inr ms \<Longrightarrow>
   list_all2 (\<lambda>item b. normalize_item item = Inr b) items ms"
  by (induction items arbitrary: ms) (auto split: sum.splits)

lemma normalize_item_shape:
  assumes "normalize_item item = Inr b"
  shows "\<exists>d s. item = PDict d
           \<and> py_add (dict_get d ''pv_energy_kwh'' (PNum 0))
                    (dict_get d ''wind_energy_kwh'' (PNum 0)) = Inr s
           \<and> b = PDict
               [(''month'', dict_get d ''month'' (PStr '''')),
                (''energy'', dict_get d ''energy'' s),
                (''revenue'', dict_get d ''revenue'' (dict_get d ''revenue_inr'' (PNum 0))),
                (''pv_energy_kwh'', dict_get d ''pv_energy_kwh'' (PNum 0)),
                (''wind_energy_kwh'', dict_get d ''wind_energy_kwh'' (PNum 0))]"
  using assms by (cases item) (auto simp: normalize_item_def split: sum.splits)

lemma normalize_item_idem:
  assumes "normalize_item item = Inr b"
  shows "normalize_item b = Inr b"
proof -
  from normalize_item_shape [OF assms] obtain d s where
    s: "py_add (dict_get d ''pv_energy_kwh'' (PNum 0))
               (dict_get d ''wind_energy_kwh'' (PNum 0)) = Inr s"
    and b: "b = PDict
               [(''month'', dict_get d ''month'' (PStr '''')),
                (''energy'', dict_get d ''energy'' s),
                (''revenue'', dict_get d ''revenue'' (dict_get d ''revenue_inr'' (PNum 0))),
                (''pv_energy_kwh'', dict_get d ''pv_energy_kwh'' (PNum 0)),
                (''wind_energy_kwh'', dict_get d ''wind_energy_kwh'' (PNum 0))]"
    by blast
  define kvs where "kvs =
               [(''month'', dict_get d ''month'' (PStr '''')),
                (''energy'', dict_get d ''energy'' s),
                (''revenue'', dict_get d ''revenue'' (dict_get d ''revenue_inr'' (PNum 0))),
                (''pv_energy_kwh'', dict_get d ''pv_energy_kwh'' (PNum 0)),
                (''wind_energy_kwh'', dict_get d ''wind_energy_kwh'' (PNum 0))]"
  have g: "dict_get kvs ''month'' x = dict_get d ''month'' (PStr '''')"
    "dict_get kvs ''energy'' x = dict_get d ''energy'' s"
    "dict_get kvs ''revenue'' x = dict_get d ''revenue'' (dict_get d ''revenue_inr'' (PNum 0))"
    "dict_get kvs ''pv_energy_kwh'' x = dict_get d ''pv_energy_kwh'' (PNum 0)"
    "dict_get kvs ''wind_energy_kwh'' x = dict_get d ''wind_energy_kwh'' (PNum 0)" for x
    by (simp_all add: kvs_def dict_get_def)
  have "normalize_item (PDict kvs) = Inr (PDict kvs)"
    unfolding normalize_item_def by (simp add: g s) (simp add: kvs_def)
  then show ?thesis by (simp add: b kvs_def)
qed

lemma normalize_months_idem:
  "normalize_months items = Inr ms \<Longrightarrow> normalize_months ms = Inr ms"
  by (induction items arbitrary: ms) (auto split: sum.splits simp: normalize_item_idem)

section \<open>Soil: a scalar property is broadcast to the three layers\<close>

text \<open>
  C3. When the gateway returns a dictionary of soil properties, the soil stage returns a
  dictionary with the same properties in the same order; a property whose value is not a
  dictionary is stored as that same value under each of \<^verbatim>\<open>"0-5cm"\<close>, \<^verbatim>\<open>"5-15cm"\<close> and
  \<^verbatim>\<open>"15-30cm"\<close>, and a property that is already a per-layer dictionary is kept as it is.
\<close>

theorem soil_scalar_broadcast:
  assumes "get_soil_data st (latitude a) (longitude a) = Inr (PDict raw)"
    and "distinct (map fst raw)"
    and "(prop, v) \<in> set raw"
  shows "\<exists>soil. soil_stage st a = Inr (PDict soil)
           \<and> map fst soil = map fst raw
           \<and> (\<not> is_dict v \<longrightarrow>
                map_of soil prop
                  = Some (PDict [(''0-5cm'', v), (''5-15cm'', v), (''15-30cm'', v)]))
           \<and> (is_dict v \<longrightarrow> map_of soil prop = Some v)"
proof -
  have s: "soil_stage st a = Inr (PDict (build_soil_data raw))"
    using assms(1) by (cases raw) (simp_all add: soil_stage_def py_or_def build_soil_data_def)
  have k: "map fst (build_soil_data raw) = map fst raw"
    by (simp add: build_soil_data_map [OF assms(2)] case_prod_unfold comp_def)
  have l: "map_of (build_soil_data raw) prop = Some (layers v)"
    by (rule map_of_build_soil_data [OF assms(2,3)])
  show ?thesis using s k l by (simp add: layers_def)
qed

theorem soil_scalar_broadcast_witness:
  "get_soil_data stages_ok (latitude analysis0) (longitude analysis0) = Inr (PDict raw_soil0)
   \<and> distinct (map fst raw_soil0)
   \<and> (''phh2o'', PNum 65) \<in> set raw_soil0
   \<and> \<not> is_dict (PNum 65)
   \<and> (\<exists>soil. soil_stage stages_ok analysis0 = Inr (PDict soil)
        \<and> map_of soil ''phh2o''
            = Some (PDict [(''0-5cm'', PNum 65), (''5-15cm'', PNum 65), (''15-30cm'', PNum 65)]))"
proof -
  have h1: "get_soil_data stages_ok (latitude analysis0) (longitude analysis0)
              = Inr (PDict raw_soil0)"
    by (simp add: stages_ok_def)
  have h2: "distinct (map fst raw_soil0)"
    by (simp add: raw_soil0_def)
  have h3: "(''phh2o'', PNum 65) \<in> set raw_soil0"
    by (simp add: raw_soil0_def)
  from soil_scalar_broadcast [OF h1 h2 h3] h1 h2 h3 show ?thesis by auto
qed

section \<open>Monthly breakdown: normalising twice\<close>

text \<open>
  C8. Normalising the monthly buckets and then normalising the result gives the same
  outcome as normalising once: the same list of records when the first pass returns, and
  the same exception when it raises.
\<close>

theorem monthly_normalization_idempotent:
  "(case normalize_months items of Inl e \<Rightarrow> Inl e | Inr ms \<Rightarrow> normalize_months ms)
     = normalize_months items"
  by (cases "normalize_months items") (simp_all add: normalize_months_idem)

section \<open>Failures of single stages\<close>

lemma crop_stage_failed: "failed (recommend_crops st soil) \<Longrightarrow> crop_stage st soil = PList []"
  by (cases "recommend_crops st soil") (simp_all add: crop_stage_def py_or_def)

lemma after_soil_crop_indep:
  assumes "crop_stage st' soil = crop_stage st soil"
    and "estimate_energy_potential st' = estimate_energy_potential st"
    and "estimate_agri_revenue st' = estimate_agri_revenue st"
    and "calculate_mixed_potential st' = calculate_mixed_potential st"
  shows "after_soil st' a soil = after_soil st a soil"
proof -
  have e: "energy_stage st' a = energy_stage st a"
    by (simp add: energy_stage_def energy_call_def assms(2) cong: sum.case_cong)
  have d: "result_document st' er crops ha = result_document st er crops ha" for er crops ha
    by (simp add: result_document_def agri_stage_def mixed_stage_def assms(3,4))
  show ?thesis
    by (simp add: after_soil_def e d assms(1) Let_def cong: sum.case_cong)
qed

lemma soil_stage_ok:
  "get_soil_data st = get_soil_data stages_ok \<Longrightarrow>
   soil_stage st analysis0 = Inr (PDict (build_soil_data raw_soil0))"
  by (simp add: soil_stage_def stages_ok_def py_or_def raw_soil0_def)

lemma energy_stage_failed: "failed (energy_call st a) \<Longrightarrow> energy_stage st a = PDict []"
  by (cases "energy_call st a") (simp_all add: energy_stage_def py_or_def)

lemma normalize_energy_empty: "normalize_energy (PDict []) = Inr zero_energy"
  by (simp add: normalize_energy_def energy_defaults_def setdefault_def dict_get_def zero_energy_def)

lemma result_document_zero:
  "result_document st zero_energy crops ha =
     zero_energy @ [(''agri_revenue'', agri_stage st crops ha),
       (''mixed_analysis'', mixed_stage st zero_energy (agri_stage st crops ha) ha)]"
  unfolding result_document_def Let_def by (simp add: zero_energy_def)

lemma normalize_energy_ok:
  "normalize_energy
     (PDict [(''total_revenue'', PNum 1000), (''monthly_breakdown'', PList [bucket0])])
   = Inr normalized0"
  by (simp add: normalize_energy_def energy_defaults_def setdefault_def dict_get_def
      bucket0_def normalize_item_def normalized0_def)

lemma energy_stage_ok:
  "estimate_energy_potential st = estimate_energy_potential stages_ok \<Longrightarrow>
   energy_stage st analysis0
     = PDict [(''total_revenue'', PNum 1000), (''monthly_breakdown'', PList [bucket0])]"
  by (simp add: energy_stage_def energy_call_def strftime_def analysis0_def
      stages_ok_def py_or_def)

subsection \<open>The soil fetch\<close>

text \<open>
  C1 (the behaviour of the code where the claim fails). The call of \<^verbatim>\<open>get_soil_data\<close> is
  not inside a \<^verbatim>\<open>try\<close> of its own, unlike the four stages after it. When it raises,
  whatever the other stages would do, the view redirects to the index page and the table
  of analyses is left as it was: no result document is saved.
\<close>

theorem soil_fetch_failure_aborts_run:
  assumes "db i = Some a"
    and "get_soil_data st (latitude a) (longitude a) = Inl e"
  shows "ProcessAnalysisView_get st db i = (RedirectIndex, db)"
  using assms by (simp add: ProcessAnalysisView_get_def run_pipeline_def soil_stage_def)

theorem soil_fetch_failure_aborts_run_witness:
  "db0 1 = Some analysis0
   \<and> get_soil_data stages_soil_timeout (latitude analysis0) (longitude analysis0)
       = Inl (StageError ''timeout'')
   \<and> ProcessAnalysisView_get stages_soil_timeout db0 1 = (RedirectIndex, db0)"
proof -
  have h1: "db0 1 = Some analysis0" by (simp add: db0_def)
  have h2: "get_soil_data stages_soil_timeout (latitude analysis0) (longitude analysis0)
              = Inl (StageError ''timeout'')"
    by (simp add: stages_soil_timeout_def)
  from soil_fetch_failure_aborts_run
         [where db = db0 and i = 1 and st = stages_soil_timeout, OF h1 h2] h1 h2
  show ?thesis by simp
qed

subsection \<open>Crop recommendations\<close>

text \<open>
  C5. For every soil dictionary that the soil stage produced: when
  \<^verbatim>\<open>recommend_crops\<close> raises or returns a falsy value, the crop stage yields the empty
  list and the run goes on to the remaining stages. The energy stage runs and its result
  is normalised; the agricultural stage is called with the empty list, the mixed stage
  with its answer; and the view saves the row, with the empty list of recommendations
  and the document of these stages, and redirects to the results page. Only an exception
  of the normalisation of the energy results ends the run otherwise. The run is in every
  case the same as with a \<^verbatim>\<open>recommend_crops\<close> that returned the empty list.
\<close>

theorem crop_failure_never_blocks:
  assumes "db i = Some a"
    and "soil_stage st a = Inr soil"
    and "failed (recommend_crops st soil)"
  shows "crop_stage st soil = PList []
       \<and> run_pipeline st a =
           (case normalize_energy (energy_stage st a) of
              Inl e \<Rightarrow> Inl e
            | Inr er \<Rightarrow>
                Inr (a\<lparr>soil_data := soil,
                       crop_recommendations := PList [],
                       energy_results := PDict
                         (AList.update ''mixed_analysis''
                            (mixed_stage st er (agri_stage st (PList []) (area_ha_of a))
                               (area_ha_of a))
                            (AList.update ''agri_revenue''
                               (agri_stage st (PList []) (area_ha_of a)) er))\<rparr>))
       \<and> ProcessAnalysisView_get st db i =
           (case normalize_energy (energy_stage st a) of
              Inl e \<Rightarrow> (RedirectIndex, db)
            | Inr er \<Rightarrow>
                (RedirectResults i,
                 db(i \<mapsto> a\<lparr>soil_data := soil,
                       crop_recommendations := PList [],
                       energy_results := PDict
                         (AList.update ''mixed_analysis''
                            (mixed_stage st er (agri_stage st (PList []) (area_ha_of a))
                               (area_ha_of a))
                            (AList.update ''agri_revenue''
                               (agri_stage st (PList []) (area_ha_of a)) er))\<rparr>)))
       \<and> run_pipeline st a = run_pipeline (st\<lparr>recommend_crops := (\<lambda>s. Inr (PList []))\<rparr>) a
       \<and> (\<forall>a'. run_pipeline st a = Inr a' \<longrightarrow> crop_recommendations a' = PList [])"
proof -
  let ?st' = "st\<lparr>recommend_crops := (\<lambda>s. Inr (PList []))\<rparr>"
  have c: "crop_stage st soil = PList []" by (rule crop_stage_failed [OF assms(3)])
  have c': "crop_stage ?st' soil = PList []" by (simp add: crop_stage_def py_or_def)
  have s': "soil_stage ?st' a = soil_stage st a" by (simp add: soil_stage_def)
  have run: "run_pipeline st a =
           (case normalize_energy (energy_stage st a) of
              Inl e \<Rightarrow> Inl e
            | Inr er \<Rightarrow>
                Inr (a\<lparr>soil_data := soil,
                       crop_recommendations := PList [],
                       energy_results := PDict
                         (AList.update ''mixed_analysis''
                            (mixed_stage st er (agri_stage st (PList []) (area_ha_of a))
                               (area_ha_of a))
                            (AList.update ''agri_revenue''
                               (agri_stage st (PList []) (area_ha_of a)) er))\<rparr>))"
    by (simp add: run_pipeline_def assms(2) after_soil_def c result_document_def Let_def
        cong: sum.case_cong)
  have view: "ProcessAnalysisView_get st db i =
           (case normalize_energy (energy_stage st a) of
              Inl e \<Rightarrow> (RedirectIndex, db)
            | Inr er \<Rightarrow>
                (RedirectResults i,
                 db(i \<mapsto> a\<lparr>soil_data := soil,
                       crop_recommendations := PList [],
                       energy_results := PDict
                         (AList.update ''mixed_analysis''
                            (mixed_stage st er (agri_stage st (PList []) (area_ha_of a))
                               (area_ha_of a))
                            (AList.update ''agri_revenue''
                               (agri_stage st (PList []) (area_ha_of a)) er))\<rparr>)))"
    by (cases "normalize_energy (energy_stage st a)")
       (simp_all add: ProcessAnalysisView_get_def assms(1) run)
  have "after_soil ?st' a soil = after_soil st a soil"
    by (rule after_soil_crop_indep) (simp_all add: c c')
  then have r: "run_pipeline st a = run_pipeline ?st' a"
    by (simp add: run_pipeline_def s' assms(2))
  have "crop_recommendations a' = PList []" if "run_pipeline st a = Inr a'" for a'
    using run_pipeline_Inr [OF that] assms(2) c by auto
  with c run view r show ?thesis by blast
qed

theorem crop_failure_never_blocks_witness:
  "db0 1 = Some analysis0
   \<and> soil_stage stages_crops_raise analysis0 = Inr (PDict (build_soil_data raw_soil0))
   \<and> failed (recommend_crops stages_crops_raise (PDict (build_soil_data raw_soil0)))
   \<and> run_pipeline stages_crops_raise analysis0 =
       Inr (analysis0\<lparr>soil_data := PDict (build_soil_data raw_soil0),
              crop_recommendations := PList [],
              energy_results := PDict
                (normalized0 @
                 [(''agri_revenue'', PDict [(''details'', PList []), (''total'', PNum 600)]),
                  (''mixed_analysis'',
                   PDict [(''scenarios'', PList []), (''best_scenario'', PDict [])])])\<rparr>)
   \<and> ProcessAnalysisView_get stages_crops_raise db0 1 =
       (RedirectResults 1,
        db0(1 \<mapsto> analysis0\<lparr>soil_data := PDict (build_soil_data raw_soil0),
              crop_recommendations := PList [],
              energy_results := PDict
                (normalized0 @
                 [(''agri_revenue'', PDict [(''details'', PList []), (''total'', PNum 600)]),
                  (''mixed_analysis'',
                   PDict [(''scenarios'', PList []), (''best_scenario'', PDict [])])])\<rparr>))"
proof -
  have h1: "db0 1 = Some analysis0" by (simp add: db0_def)
  have h2: "soil_stage stages_crops_raise analysis0 = Inr (PDict (build_soil_data raw_soil0))"
    by (rule soil_stage_ok) (simp add: stages_crops_raise_def)
  have h3: "failed (recommend_crops stages_crops_raise (PDict (build_soil_data raw_soil0)))"
    by (simp add: stages_crops_raise_def)
  have n: "normalize_energy (energy_stage stages_crops_raise analysis0) = Inr normalized0"
    by (simp add: energy_stage_ok stages_crops_raise_def normalize_energy_ok)
  have g: "agri_stage stages_crops_raise (PList []) ha
             = PDict [(''details'', PList []), (''total'', PNum 600)]" for ha
    by (simp add: agri_stage_def stages_crops_raise_def stages_ok_def py_or_def)
  have m: "mixed_stage stages_crops_raise er agri ha
             = PDict [(''scenarios'', PList []), (''best_scenario'', PDict [])]" for er agri ha
    by (simp add: mixed_stage_def stages_crops_raise_def stages_ok_def mixed_default_def)
  have u: "AList.update ''mixed_analysis'' x (AList.update ''agri_revenue'' y normalized0)
             = normalized0 @ [(''agri_revenue'', y), (''mixed_analysis'', x)]" for x y
    by (simp add: normalized0_def)
  from crop_failure_never_blocks
         [where db = db0 and i = 1 and st = stages_crops_raise, OF h1 h2 h3]
  have "run_pipeline stages_crops_raise analysis0 =
       Inr (analysis0\<lparr>soil_data := PDict (build_soil_data raw_soil0),
              crop_recommendations := PList [],
              energy_results := PDict
                (normalized0 @
                 [(''agri_revenue'', PDict [(''details'', PList []), (''total'', PNum 600)]),
                  (''mixed_analysis'',
                   PDict [(''scenarios'', PList []), (''best_scenario'', PDict [])])])\<rparr>)
   \<and> ProcessAnalysisView_get stages_crops_raise db0 1 =
       (RedirectResults 1,
        db0(1 \<mapsto> analysis0\<lparr>soil_data := PDict (build_soil_data raw_soil0),
              crop_recommendations := PList [],
              energy_results := PDict
                (normalized0 @
                 [(''agri_revenue'', PDict [(''details'', PList []), (''total'', PNum 600)]),
                  (''mixed_analysis'',
                   PDict [(''scenarios'', PList []), (''best_scenario'', PDict [])])])\<rparr>))"
    by (simp add: n g m u)
  with h1 h2 h3 show ?thesis by blast
qed

subsection \<open>Energy estimation\<close>

text \<open>
  C4. Once the soil stage has produced its dictionary: when the energy stage raises (the
  estimator, or the rendering of a date) or returns a falsy value, the view saves the row
  and redirects to the results page; the saved document has the four totals at 0, an
  empty monthly breakdown, both plots the empty string, followed by the agricultural
  revenue and the mixed analysis.
\<close>

theorem energy_failure_zero_document:
  assumes "db i = Some a"
    and "soil_stage st a = Inr soil"
    and "failed (energy_call st a)"
  shows "\<exists>agri mixed.
           ProcessAnalysisView_get st db i =
             (RedirectResults i,
              db(i \<mapsto> a\<lparr>soil_data := soil,
                          crop_recommendations := crop_stage st soil,
                          energy_results := PDict
                            [(''total_energy_kwh'', PNum 0), (''pv_energy_kwh'', PNum 0),
                             (''wind_energy_kwh'', PNum 0), (''total_revenue'', PNum 0),
                             (''monthly_breakdown'', PList []), (''hourly_plot'', PStr ''''),
                             (''daily_plot'', PStr ''''),
                             (''agri_revenue'', agri), (''mixed_analysis'', mixed)]\<rparr>))"
proof -
  have e: "normalize_energy (energy_stage st a) = Inr zero_energy"
    by (simp add: energy_stage_failed [OF assms(3)] normalize_energy_empty)
  have "run_pipeline st a =
          Inr (a\<lparr>soil_data := soil, crop_recommendations := crop_stage st soil,
                 energy_results :=
                   PDict (result_document st zero_energy (crop_stage st soil) (area_ha_of a))\<rparr>)"
    by (simp add: run_pipeline_def assms(2) after_soil_def e Let_def)
  then have "ProcessAnalysisView_get st db i =
             (RedirectResults i,
              db(i \<mapsto> a\<lparr>soil_data := soil,
                          crop_recommendations := crop_stage st soil,
                          energy_results := PDict
                            [(''total_energy_kwh'', PNum 0), (''pv_energy_kwh'', PNum 0),
                             (''wind_energy_kwh'', PNum 0), (''total_revenue'', PNum 0),
                             (''monthly_breakdown'', PList []), (''hourly_plot'', PStr ''''),
                             (''daily_plot'', PStr ''''),
                             (''agri_revenue'',
                              agri_stage st (crop_stage st soil) (area_ha_of a)),
                             (''mixed_analysis'',
                              mixed_stage st zero_energy
                                (agri_stage st (crop_stage st soil) (area_ha_of a))
                                (area_ha_of a))]\<rparr>))"
    by (simp add: ProcessAnalysisView_get_def assms(1) result_document_zero)
       (simp add: zero_energy_def)
  then show ?thesis by blast
qed

theorem energy_failure_zero_document_witness:
  "db0 1 = Some analysis0
   \<and> soil_stage stages_energy_timeout analysis0 = Inr (PDict (build_soil_data raw_soil0))
   \<and> failed (energy_call stages_energy_timeout analysis0)
   \<and> fst (ProcessAnalysisView_get stages_energy_timeout db0 1) = RedirectResults 1"
proof -
  have h1: "db0 1 = Some analysis0" by (simp add: db0_def)
  have h2: "soil_stage stages_energy_timeout analysis0 = Inr (PDict (build_soil_data raw_soil0))"
    by (rule soil_stage_ok) (simp add: stages_energy_timeout_def)
  have h3: "failed (energy_call stages_energy_timeout analysis0)"
    by (simp add: energy_call_def strftime_def analysis0_def stages_energy_timeout_def)
  from energy_failure_zero_document
         [where db = db0 and i = 1 and st = stages_energy_timeout, OF h1 h2 h3] h1 h2 h3
  show ?thesis by auto
qed

section \<open>Scenarios\<close>

lemma better_cases: "better best s = best \<or> better best s = s"
  by (simp add: better_def)

lemma better_ge: "revenue best \<le> revenue (better best s) \<and> revenue s \<le> revenue (better best s)"
  by (auto simp: better_def)

lemma fold_better_mem:
  "fold (\<lambda>s best. better best s) ss init \<in> insert init (set ss)"
proof (induction ss arbitrary: init)
  case Nil
  then show ?case by simp
next
  case (Cons s ss)
  from Cons.IH [of "better init s"] better_cases [of init s]
  show ?case by auto
qed

lemma fold_better_ge_init:
  "revenue init \<le> revenue (fold (\<lambda>s best. better best s) ss init)"
proof (induction ss arbitrary: init)
  case Nil
  then show ?case by simp
next
  case (Cons s ss)
  from Cons.IH [of "better init s"] better_ge [of init s]
  show ?case by simp
qed

lemma fold_better_max:
  "t \<in> set ss \<Longrightarrow> revenue t \<le> revenue (fold (\<lambda>s best. better best s) ss init)"
proof (induction ss arbitrary: init)
  case Nil
  then show ?case by simp
next
  case (Cons s ss)
  show ?case
  proof (cases "t = s")
    case True
    have "revenue s \<le> revenue (better init s)" using better_ge by blast
    also have "\<dots> \<le> revenue (fold (\<lambda>s best. better best s) ss (better init s))"
      by (rule fold_better_ge_init)
    finally show ?thesis by (simp add: True)
  next
    case False
    with Cons.prems have "t \<in> set ss" by simp
    from Cons.IH [OF this, of "better init s"] show ?thesis by simp
  qed
qed

lemma scenarios_optimize:
  "scenarios (optimize e g ha) = map (scenario_for e g) allocation_fractions"
  by (simp add: optimize_def Let_def)

lemma best_optimize:
  "best_scenario (optimize e g ha) =
     fold (\<lambda>s best. better best s) (scenarios (optimize e g ha)) (scenario_for e g 0)"
  by (simp add: optimize_def Let_def)

text \<open>
  C6. The optimizer of the specification builds the scenarios of the five fractions
  0, 1/4, 1/2, 3/4 and 1, in that order; the revenue of each is its fraction of the
  energy revenue plus the rest of the agricultural revenue; the best scenario is one of
  the five and no scenario has a greater revenue. For an energy revenue of 1000 and an
  agricultural revenue of 600 the revenues are 600, 700, 800, 900 and 1000, and the best
  scenario is the one of fraction 1.
\<close>

theorem scenario_optimizer:
  "map energy_fraction (scenarios (optimize e g ha)) = [0, 1 / 4, 1 / 2, 3 / 4, 1]
   \<and> (\<forall>s \<in> set (scenarios (optimize e g ha)).
         agri_fraction s = 1 - energy_fraction s
         \<and> revenue s = energy_fraction s * e + (1 - energy_fraction s) * g)
   \<and> best_scenario (optimize e g ha) \<in> set (scenarios (optimize e g ha))
   \<and> (\<forall>s \<in> set (scenarios (optimize e g ha)).
         revenue s \<le> revenue (best_scenario (optimize e g ha)))
   \<and> map revenue (scenarios (optimize 1000 600 10)) = [600, 700, 800, 900, 1000]
   \<and> best_scenario (optimize 1000 600 10)
       = \<lparr>energy_fraction = 1, agri_fraction = 0, revenue = 1000\<rparr>"
proof -
  have 1: "map energy_fraction (scenarios (optimize e g ha)) = [0, 1 / 4, 1 / 2, 3 / 4, 1]"
    by (simp add: scenarios_optimize allocation_fractions_def scenario_for_def)
  have 2: "\<forall>s \<in> set (scenarios (optimize e g ha)).
         agri_fraction s = 1 - energy_fraction s
         \<and> revenue s = energy_fraction s * e + (1 - energy_fraction s) * g"
    by (simp add: scenarios_optimize allocation_fractions_def scenario_for_def)
  have z: "scenario_for e g 0 \<in> set (scenarios (optimize e g ha))"
    by (simp add: scenarios_optimize allocation_fractions_def)
  have 3: "best_scenario (optimize e g ha) \<in> set (scenarios (optimize e g ha))"
    using fold_better_mem [of "scenarios (optimize e g ha)" "scenario_for e g 0"] z
    by (auto simp: best_optimize)
  have 4: "\<forall>s \<in> set (scenarios (optimize e g ha)).
         revenue s \<le> revenue (best_scenario (optimize e g ha))"
    by (simp add: best_optimize fold_better_max)
  have 5: "map revenue (scenarios (optimize 1000 600 10)) = [600, 700, 800, 900, 1000]"
    by (simp add: scenarios_optimize allocation_fractions_def scenario_for_def)
  have 6: "best_scenario (optimize 1000 600 10)
       = \<lparr>energy_fraction = 1, agri_fraction = 0, revenue = 1000\<rparr>"
    by (simp add: optimize_def Let_def allocation_fractions_def scenario_for_def better_def)
  from 1 2 3 4 5 6 show ?thesis by blast
qed

theorem scenario_optimizer_witness:
  "scenario_for 1000 600 (1 / 2) \<in> set (scenarios (optimize 1000 600 10))
   \<and> revenue (scenario_for 1000 600 (1 / 2)) = 800
   \<and> revenue (scenario_for 1000 600 (1 / 2)) \<le> revenue (best_scenario (optimize 1000 600 10))
   \<and> energy_fraction (best_scenario (optimize 1000 600 10)) = 1"
proof -
  have m: "scenario_for 1000 600 (1 / 2) \<in> set (scenarios (optimize 1000 600 10))"
    by (simp add: scenarios_optimize allocation_fractions_def)
  have r: "revenue (scenario_for 1000 600 (1 / 2)) = 800"
    by (simp add: scenario_for_def)
  from scenario_optimizer [of 1000 600 10] m r show ?thesis by auto
qed

section \<open>The saved result document\<close>

lemma run_analysis0:
  assumes "get_soil_data st = get_soil_data stages_ok"
    and "estimate_energy_potential st = estimate_energy_potential stages_ok"
  shows "run_pipeline st analysis0 =
           Inr (analysis0\<lparr>soil_data := PDict (build_soil_data raw_soil0),
                  crop_recommendations := crop_stage st (PDict (build_soil_data raw_soil0)),
                  energy_results := PDict (result_document st normalized0
                     (crop_stage st (PDict (build_soil_data raw_soil0)))
                     (area_ha_of analysis0))\<rparr>)"
proof -
  have s: "soil_stage st analysis0 = Inr (PDict (build_soil_data raw_soil0))"
    by (rule soil_stage_ok [OF assms(1)])
  have e: "energy_stage st analysis0
             = PDict [(''total_revenue'', PNum 1000), (''monthly_breakdown'', PList [bucket0])]"
    by (simp add: energy_stage_def energy_call_def strftime_def analysis0_def
        assms(2) stages_ok_def py_or_def)
  have n: "normalize_energy
             (PDict [(''total_revenue'', PNum 1000), (''monthly_breakdown'', PList [bucket0])])
           = Inr normalized0"
    by (simp add: normalize_energy_def energy_defaults_def setdefault_def dict_get_def
        bucket0_def normalize_item_def normalized0_def)
  show ?thesis by (simp add: run_pipeline_def s after_soil_def Let_def e n)
qed

lemma map_of_setdefault:
  "map_of (setdefault k v d) k' =
     (if k' = k \<and> map_of d k = None then Some v else map_of d k')"
  by (auto simp: setdefault_def map_add_def split: option.splits)

lemma monthly_of_energy_defaults:
  "dict_get (energy_defaults d) ''monthly_breakdown'' (PList [])
     = dict_get d ''monthly_breakdown'' (PList [])"
  by (simp add: energy_defaults_def dict_get_def map_of_setdefault split: option.splits)

lemma normalize_energy_Inr:
  assumes "normalize_energy er = Inr n"
  shows "\<exists>d items ms. er = PDict d
           \<and> py_iter (dict_get d ''monthly_breakdown'' (PList [])) = Inr items
           \<and> normalize_months items = Inr ms
           \<and> map_of n ''monthly_breakdown'' = Some (PList ms)"
  using assms
  by (cases er)
     (auto simp: normalize_energy_def monthly_of_energy_defaults update_conv'
           split: sum.splits)



subsection \<open>Agricultural revenue\<close>

text \<open>
  C9. In every run that saves a row: when \<^verbatim>\<open>estimate_agri_revenue\<close>, called with the
  crop recommendations of the row and the area in hectares, raises or returns a falsy
  value, the saved document holds under \<^verbatim>\<open>agri_revenue\<close> exactly the dictionary
  \<^verbatim>\<open>{"details": []}\<close>, with no field for an aggregate revenue.
\<close>

theorem agri_failure_default:
  assumes "db i = Some a"
    and "ProcessAnalysisView_get st db i = (RedirectResults i, db')"
    and "db' i = Some a'"
    and "failed (estimate_agri_revenue st (crop_recommendations a') (PNum (area_ha_of a)))"
  shows "\<exists>d. energy_results a' = PDict d
           \<and> map_of d ''agri_revenue'' = Some (PDict [(''details'', PList [])])"
proof -
  from view_saved [OF assms(2)] assms(1) obtain a1 where
    r: "run_pipeline st a = Inr a1" and d: "db' = db(i \<mapsto> a1)"
    by auto
  from d assms(3) have a1: "a1 = a'" by simp
  from run_pipeline_Inr [OF r] obtain soil er where
    a': "a' = a\<lparr>soil_data := soil,
                   crop_recommendations := crop_stage st soil,
                   energy_results :=
                     PDict (result_document st er (crop_stage st soil) (area_ha_of a))\<rparr>"
    by (auto simp: a1)
  have c: "crop_recommendations a' = crop_stage st soil" by (simp add: a')
  have "failed (estimate_agri_revenue st (crop_stage st soil) (PNum (area_ha_of a)))"
    using assms(4) by (simp add: c)
  then have g: "agri_stage st (crop_stage st soil) (area_ha_of a) = PDict [(''details'', PList [])]"
    by (cases "estimate_agri_revenue st (crop_stage st soil) (PNum (area_ha_of a))")
       (simp_all add: agri_stage_def agri_default_def py_or_def)
  have "map_of (result_document st er (crop_stage st soil) (area_ha_of a)) ''agri_revenue''
          = Some (PDict [(''details'', PList [])])"
    by (simp add: map_of_result_document g)
  then show ?thesis by (simp add: a')
qed

theorem agri_failure_default_witness:
  "\<exists>a'. db0 1 = Some analysis0
      \<and> ProcessAnalysisView_get stages_agri_raise db0 1 = (RedirectResults 1, db0(1 \<mapsto> a'))
      \<and> failed (estimate_agri_revenue stages_agri_raise (crop_recommendations a')
                  (PNum (area_ha_of analysis0)))
      \<and> (\<exists>d. energy_results a' = PDict d
             \<and> map_of d ''agri_revenue'' = Some (PDict [(''details'', PList [])]))"
proof -
  obtain a' where r: "run_pipeline stages_agri_raise analysis0 = Inr a'"
    using run_analysis0 [of stages_agri_raise] by (simp add: stages_agri_raise_def)
  have h1: "db0 1 = Some analysis0" by (simp add: db0_def)
  have h2: "ProcessAnalysisView_get stages_agri_raise db0 1 = (RedirectResults 1, db0(1 \<mapsto> a'))"
    using h1 r by (simp add: ProcessAnalysisView_get_def)
  have h3: "(db0(1 \<mapsto> a')) 1 = Some a'" by simp
  have h4: "failed (estimate_agri_revenue stages_agri_raise (crop_recommendations a')
                  (PNum (area_ha_of analysis0)))"
    by (simp add: stages_agri_raise_def)
  from agri_failure_default [OF h1 h2 h3 h4] h1 h2 h4 show ?thesis by blast
qed

subsection \<open>Monthly breakdown\<close>

text \<open>
  C10. In every run that saves a row, the saved document holds a list under
  \<^verbatim>\<open>monthly_breakdown\<close> whose records each have exactly the keys \<^verbatim>\<open>month\<close>,
  \<^verbatim>\<open>energy\<close>, \<^verbatim>\<open>revenue\<close>, \<^verbatim>\<open>pv_energy_kwh\<close> and \<^verbatim>\<open>wind_energy_kwh\<close>, in this
  order; the list has one record for each bucket that the energy stage produced, whose
  month is the month of the bucket, or the empty string when the bucket has none. A key
  such as \<^verbatim>\<open>revenue_inr\<close> is therefore not in the record.
\<close>

theorem stored_monthly_records:
  assumes "db i = Some a"
    and "ProcessAnalysisView_get st db i = (RedirectResults i, db')"
    and "db' i = Some a'"
  shows "\<exists>d d0 items ms.
           energy_results a' = PDict d
         \<and> map_of d ''monthly_breakdown'' = Some (PList ms)
         \<and> (\<forall>b \<in> set ms. \<exists>kvs. b = PDict kvs
               \<and> map fst kvs
                   = [''month'', ''energy'', ''revenue'', ''pv_energy_kwh'', ''wind_energy_kwh''])
         \<and> energy_stage st a = PDict d0
         \<and> py_iter (dict_get d0 ''monthly_breakdown'' (PList [])) = Inr items
         \<and> list_all2
              (\<lambda>item b. \<exists>di m e r p w.
                   item = PDict di
                 \<and> b = PDict [(''month'', m), (''energy'', e), (''revenue'', r),
                              (''pv_energy_kwh'', p), (''wind_energy_kwh'', w)]
                 \<and> (map_of di ''month'' = None \<longrightarrow> m = PStr '''')
                 \<and> (\<forall>x. map_of di ''month'' = Some x \<longrightarrow> m = x))
              items ms"
proof -
  from view_saved [OF assms(2)] assms(1) obtain a1 where
    r: "run_pipeline st a = Inr a1" and d: "db' = db(i \<mapsto> a1)"
    by auto
  from d assms(3) have a1: "a1 = a'" by simp
  from run_pipeline_Inr [OF r] obtain soil er where
    n: "normalize_energy (energy_stage st a) = Inr er"
    and a': "a' = a\<lparr>soil_data := soil,
                   crop_recommendations := crop_stage st soil,
                   energy_results :=
                     PDict (result_document st er (crop_stage st soil) (area_ha_of a))\<rparr>"
    by (auto simp: a1)
  from normalize_energy_Inr [OF n] obtain d0 items ms where
    d0: "energy_stage st a = PDict d0"
    and it: "py_iter (dict_get d0 ''monthly_breakdown'' (PList [])) = Inr items"
    and nm: "normalize_months items = Inr ms"
    and mb: "map_of er ''monthly_breakdown'' = Some (PList ms)"
    by blast
  let ?d = "result_document st er (crop_stage st soil) (area_ha_of a)"
  let ?R = "\<lambda>item b. \<exists>di m e r p w.
                   item = PDict di
                 \<and> b = PDict [(''month'', m), (''energy'', e), (''revenue'', r),
                              (''pv_energy_kwh'', p), (''wind_energy_kwh'', w)]
                 \<and> (map_of di ''month'' = None \<longrightarrow> m = PStr '''')
                 \<and> (\<forall>x. map_of di ''month'' = Some x \<longrightarrow> m = x)"
  have 1: "energy_results a' = PDict ?d" by (simp add: a')
  have 2: "map_of ?d ''monthly_breakdown'' = Some (PList ms)"
    by (simp add: map_of_result_document mb)
  have step: "?R item b" if "normalize_item item = Inr b" for item b
    using normalize_item_shape [OF that] by (auto simp: dict_get_def)
  have 4: "list_all2 ?R items ms"
    using normalize_months_all2 [OF nm] step by (rule list_all2_mono)
  have 3: "\<forall>b \<in> set ms. \<exists>kvs. b = PDict kvs
               \<and> map fst kvs
                   = [''month'', ''energy'', ''revenue'', ''pv_energy_kwh'', ''wind_energy_kwh'']"
  proof
    fix b assume "b \<in> set ms"
    then obtain j where j: "j < length ms" "b = ms ! j" by (auto simp: in_set_conv_nth)
    from 4 j have "?R (items ! j) b" by (simp add: list_all2_conv_all_nth)
    then show "\<exists>kvs. b = PDict kvs
               \<and> map fst kvs
                   = [''month'', ''energy'', ''revenue'', ''pv_energy_kwh'', ''wind_energy_kwh'']"
      by auto
  qed
  from 1 2 3 d0 it 4 show ?thesis by blast
qed

theorem stored_monthly_records_witness:
  "\<exists>a' d. db0 1 = Some analysis0
      \<and> ProcessAnalysisView_get stages_ok db0 1 = (RedirectResults 1, db0(1 \<mapsto> a'))
      \<and> energy_results a' = PDict d
      \<and> map_of d ''monthly_breakdown'' = Some (PList
           [PDict [(''month'', PStr ''2024-01''), (''energy'', PNum 7), (''revenue'', PNum 35),
                   (''pv_energy_kwh'', PNum 3), (''wind_energy_kwh'', PNum 4)]])
      \<and> (\<exists>ms. map_of d ''monthly_breakdown'' = Some (PList ms))"
proof -
  let ?a' = "analysis0\<lparr>soil_data := PDict (build_soil_data raw_soil0),
                  crop_recommendations := crop_stage stages_ok (PDict (build_soil_data raw_soil0)),
                  energy_results := PDict (result_document stages_ok normalized0
                     (crop_stage stages_ok (PDict (build_soil_data raw_soil0)))
                     (area_ha_of analysis0))\<rparr>"
  have r: "run_pipeline stages_ok analysis0 = Inr ?a'"
    by (rule run_analysis0) simp_all
  have h1: "db0 1 = Some analysis0" by (simp add: db0_def)
  have h2: "ProcessAnalysisView_get stages_ok db0 1 = (RedirectResults 1, db0(1 \<mapsto> ?a'))"
    using h1 r by (simp add: ProcessAnalysisView_get_def)
  have h3: "(db0(1 \<mapsto> ?a')) 1 = Some ?a'" by simp
  have e: "energy_results ?a' = PDict (result_document stages_ok normalized0
                     (crop_stage stages_ok (PDict (build_soil_data raw_soil0)))
                     (area_ha_of analysis0))"
    by simp
  have m: "map_of (result_document stages_ok normalized0
                     (crop_stage stages_ok (PDict (build_soil_data raw_soil0)))
                     (area_ha_of analysis0)) ''monthly_breakdown'' = Some (PList
           [PDict [(''month'', PStr ''2024-01''), (''energy'', PNum 7), (''revenue'', PNum 35),
                   (''pv_energy_kwh'', PNum 3), (''wind_energy_kwh'', PNum 4)]])"
    by (simp add: map_of_result_document normalized0_def)
  from stored_monthly_records [OF h1 h2 h3] e
  have "\<exists>ms. map_of (result_document stages_ok normalized0
                     (crop_stage stages_ok (PDict (build_soil_data raw_soil0)))
                     (area_ha_of analysis0)) ''monthly_breakdown'' = Some (PList ms)"
    by auto
  with h1 h2 e m show ?thesis by blast
qed



section \<open>Parcel area\<close>

lemma floor_rat_numeral: "\<lfloor>(numeral a :: rat) / numeral b\<rfloor> = numeral a div numeral b"
  by (metis floor_divide_of_int_eq of_int_numeral)

lemma ceiling_rat_numeral:
  "\<lceil>(numeral a :: rat) / numeral b\<rceil> = - (- numeral a div numeral b)"
  by (metis ceiling_divide_eq_div of_int_numeral)

lemmas eval_round_double =
  round_double_def binary_exponent_def round_half_even_def pow2_def Let_def
  floor_rat_numeral ceiling_rat_numeral bit_length.simps

lemma round_double_3_over_10000: "round_double (3 / 10000) = 5534023222112865 / 2 ^ 64"
  by (simp add: eval_round_double)

lemma round_double_back: "round_double (5534023222112865 / 2 ^ 64 * 10000) = 6755399441055743 / 2 ^ 51"
  by (simp add: eval_round_double)

lemma round_double_20000: "round_double (2 * 10000) = 20000"
  by (simp add: eval_round_double)

lemma round_double_2: "round_double (20000 / 10000) = 2"
  by (simp add: eval_round_double)

lemma area_three:
  "area_m2_of analysis_three = 3 \<and> area_ha_of analysis_three = 5534023222112865 / 2 ^ 64"
proof -
  have m: "area_m2_of analysis_three = 3"
    by (simp add: area_m2_of_def num_or_def analysis_three_def)
  have "area_ha_of analysis_three = round_double (3 / 10000)"
    by (simp add: area_ha_of_def m)
  with m show ?thesis by (simp only: round_double_3_over_10000)
qed

lemma area_analysis0: "area_m2_of analysis0 = 20000 \<and> area_ha_of analysis0 = 2"
proof -
  have m: "area_m2_of analysis0 = round_double (2 * 10000)"
    by (simp add: area_m2_of_def num_or_def analysis0_def)
  then have m': "area_m2_of analysis0 = 20000" by (simp only: round_double_20000)
  have "area_ha_of analysis0 = round_double (20000 / 10000)"
    by (simp add: area_ha_of_def m')
  with m' show ?thesis by (simp only: round_double_2)
qed

lemma run_echo: "\<exists>a'. run_pipeline stages_echo analysis0 = Inr a'"
proof -
  have s: "soil_stage stages_echo analysis0 = Inr (PDict (build_soil_data raw_soil0))"
    by (rule soil_stage_ok) (simp add: stages_echo_def stages_ok_def)
  have d: "start_date analysis0 = Some ''2024-01-01''" "end_date analysis0 = Some ''2024-12-31''"
    by (simp_all add: analysis0_def)
  have c: "energy_call stages_echo analysis0 = Inr (PDict [(''area_m2'', PNum 20000)])"
    by (simp add: energy_call_def strftime_def d energy_kwargs_def stages_echo_def
        dict_get_def area_analysis0)
  have e: "energy_stage stages_echo analysis0 = PDict [(''area_m2'', PNum 20000)]"
    by (simp add: energy_stage_def c py_or_def)
  have "\<exists>er. normalize_energy (PDict [(''area_m2'', PNum 20000)]) = Inr er"
    by (simp add: normalize_energy_def energy_defaults_def setdefault_def dict_get_def)
  then obtain er where "normalize_energy (energy_stage stages_echo analysis0) = Inr er"
    by (auto simp: e)
  then show ?thesis by (simp add: run_pipeline_def s after_soil_def Let_def)
qed

text \<open>
  Two rows against the statement of the specification. The first stores only
  \<^verbatim>\<open>area_m2 = 3\<close>: the energy estimator receives 3, the other stages receive the double
  nearest to 3/10000, and 10000 times that is not 3, neither exactly nor after rounding
  (Python prints \<^verbatim>\<open>2.9999999999999996\<close>). The second stores only \<^verbatim>\<open>area_m2 = -5\<close>:
  neither stored field is positive, yet the value is truthy and is what the energy
  estimator receives, so the two areas are not both 0.
\<close>

theorem area_units_counterexample:
  "area_m2 analysis_three = Some 3 \<and> area_ha analysis_three = None
   \<and> area_m2_of analysis_three = 3
   \<and> area_ha_of analysis_three = 5534023222112865 / 2 ^ 64
   \<and> area_ha_of analysis_three * 10000 \<noteq> area_m2_of analysis_three
   \<and> round_double (area_ha_of analysis_three * 10000) = 6755399441055743 / 2 ^ 51
   \<and> round_double (area_ha_of analysis_three * 10000) \<noteq> area_m2_of analysis_three
   \<and> area_m2 analysis_neg = Some (- 5) \<and> \<not> (0::rat) < - 5 \<and> area_ha analysis_neg = None
   \<and> area_m2_of analysis_neg = - 5
   \<and> \<not> (area_m2_of analysis_neg = 0 \<and> area_ha_of analysis_neg = 0)"
proof -
  have s: "area_m2 analysis_three = Some 3 \<and> area_ha analysis_three = None
     \<and> area_m2 analysis_neg = Some (- 5) \<and> area_ha analysis_neg = None"
    by (simp add: analysis_three_def analysis_neg_def)
  have m: "area_m2_of analysis_three = 3" and h: "area_ha_of analysis_three = 5534023222112865 / 2 ^ 64"
    using area_three by simp_all
  have x: "area_ha_of analysis_three * 10000 \<noteq> area_m2_of analysis_three"
    by (simp add: m h)
  have b: "round_double (area_ha_of analysis_three * 10000) = 6755399441055743 / 2 ^ 51"
    by (simp only: h round_double_back)
  have y: "round_double (area_ha_of analysis_three * 10000) \<noteq> area_m2_of analysis_three"
    by (simp add: b m)
  have n: "area_m2_of analysis_neg = - 5"
    by (simp add: area_m2_of_def num_or_def analysis_neg_def)
  have z: "\<not> (area_m2_of analysis_neg = 0 \<and> area_ha_of analysis_neg = 0)"
    by (simp add: n)
  from s m h x b y n z show ?thesis by simp
qed

text \<open>
  C7 (amended). The energy estimator is called with \<^verbatim>\<open>area_m2\<close> and the agricultural and
  mixed stages with \<^verbatim>\<open>area_ha\<close>, where \<^verbatim>\<open>area_ha\<close> is 0 when \<^verbatim>\<open>area_m2\<close> is 0 and
  otherwise the floating-point quotient \<^verbatim>\<open>area_m2 / 10000\<close>. A stored \<^verbatim>\<open>area_m2\<close> that
  is neither NULL nor 0 is passed as it is; when the stored \<^verbatim>\<open>area_m2\<close> is NULL or 0,
  \<^verbatim>\<open>area_m2\<close> is the floating-point product of the stored \<^verbatim>\<open>area_ha\<close> and 10000; and
  when each stored field is NULL or 0, both values are 0.
\<close>

theorem area_units:
  "(start_date a = Some sd \<and> end_date a = Some ed \<longrightarrow>
      energy_call st a = estimate_energy_potential st (energy_kwargs a sd ed)
      \<and> map_of (energy_kwargs a sd ed) ''area_m2'' = Some (PNum (area_m2_of a)))
   \<and> (run_pipeline st a = Inr a' \<longrightarrow>
        (\<exists>er agri mixed.
            normalize_energy (energy_stage st a) = Inr er
          \<and> agri = (case estimate_agri_revenue st (crop_recommendations a')
                            (PNum (area_ha_of a)) of
                      Inl e \<Rightarrow> agri_default | Inr r \<Rightarrow> py_or r agri_default)
          \<and> mixed = (case calculate_mixed_potential st (PDict er) agri
                             (PNum (area_ha_of a)) of
                       Inl e \<Rightarrow> mixed_default | Inr r \<Rightarrow> py_or r mixed_default)
          \<and> energy_results a' = PDict
                (AList.update ''mixed_analysis'' mixed
                   (AList.update ''agri_revenue'' agri er))))
   \<and> area_ha_of a
        = (if area_m2_of a = 0 then 0 else round_double (area_m2_of a / 10000))
   \<and> (area_m2 a = Some m \<and> m \<noteq> 0 \<longrightarrow> area_m2_of a = m)
   \<and> ((area_m2 a = None \<or> area_m2 a = Some 0) \<and> area_ha a = Some h \<and> h \<noteq> 0
        \<longrightarrow> area_m2_of a = round_double (h * 10000))
   \<and> ((area_m2 a = None \<or> area_m2 a = Some 0) \<and> (area_ha a = None \<or> area_ha a = Some 0)
        \<longrightarrow> area_m2_of a = 0 \<and> area_ha_of a = 0)"
proof -
  have 1: "start_date a = Some sd \<and> end_date a = Some ed \<longrightarrow>
      energy_call st a = estimate_energy_potential st (energy_kwargs a sd ed)
      \<and> map_of (energy_kwargs a sd ed) ''area_m2'' = Some (PNum (area_m2_of a))"
    by (simp add: energy_call_def strftime_def energy_kwargs_def)
  have 2: "run_pipeline st a = Inr a' \<longrightarrow>
        (\<exists>er agri mixed.
            normalize_energy (energy_stage st a) = Inr er
          \<and> agri = (case estimate_agri_revenue st (crop_recommendations a')
                            (PNum (area_ha_of a)) of
                      Inl e \<Rightarrow> agri_default | Inr r \<Rightarrow> py_or r agri_default)
          \<and> mixed = (case calculate_mixed_potential st (PDict er) agri
                             (PNum (area_ha_of a)) of
                       Inl e \<Rightarrow> mixed_default | Inr r \<Rightarrow> py_or r mixed_default)
          \<and> energy_results a' = PDict
                (AList.update ''mixed_analysis'' mixed
                   (AList.update ''agri_revenue'' agri er)))"
  proof
    assume "run_pipeline st a = Inr a'"
    from run_pipeline_Inr [OF this] obtain soil er where
      n: "normalize_energy (energy_stage st a) = Inr er"
      and a': "a' = a\<lparr>soil_data := soil,
                   crop_recommendations := crop_stage st soil,
                   energy_results :=
                     PDict (result_document st er (crop_stage st soil) (area_ha_of a))\<rparr>"
      by blast
    have "energy_results a' = PDict
            (AList.update ''mixed_analysis''
               (case calculate_mixed_potential st (PDict er)
                       (case estimate_agri_revenue st (crop_recommendations a')
                               (PNum (area_ha_of a)) of
                          Inl e \<Rightarrow> agri_default | Inr r \<Rightarrow> py_or r agri_default)
                       (PNum (area_ha_of a)) of
                  Inl e \<Rightarrow> mixed_default | Inr r \<Rightarrow> py_or r mixed_default)
               (AList.update ''agri_revenue''
                  (case estimate_agri_revenue st (crop_recommendations a')
                          (PNum (area_ha_of a)) of
                     Inl e \<Rightarrow> agri_default | Inr r \<Rightarrow> py_or r agri_default)
                  er))"
      by (simp add: a' result_document_def agri_stage_def mixed_stage_def Let_def)
    with n show "\<exists>er agri mixed.
            normalize_energy (energy_stage st a) = Inr er
          \<and> agri = (case estimate_agri_revenue st (crop_recommendations a')
                            (PNum (area_ha_of a)) of
                      Inl e \<Rightarrow> agri_default | Inr r \<Rightarrow> py_or r agri_default)
          \<and> mixed = (case calculate_mixed_potential st (PDict er) agri
                             (PNum (area_ha_of a)) of
                       Inl e \<Rightarrow> mixed_default | Inr r \<Rightarrow> py_or r mixed_default)
          \<and> energy_results a' = PDict
                (AList.update ''mixed_analysis'' mixed
                   (AList.update ''agri_revenue'' agri er))"
      by blast
  qed
  have 3: "area_ha_of a
        = (if area_m2_of a = 0 then 0 else round_double (area_m2_of a / 10000))"
    by (simp add: area_ha_of_def)
  have 4: "area_m2 a = Some m \<and> m \<noteq> 0 \<longrightarrow> area_m2_of a = m"
    by (simp add: area_m2_of_def num_or_def)
  have 5: "(area_m2 a = None \<or> area_m2 a = Some 0) \<and> area_ha a = Some h \<and> h \<noteq> 0
        \<longrightarrow> area_m2_of a = round_double (h * 10000)"
    by (cases "area_m2 a") (auto simp: area_m2_of_def num_or_def)
  have 6: "(area_m2 a = None \<or> area_m2 a = Some 0) \<and> (area_ha a = None \<or> area_ha a = Some 0)
        \<longrightarrow> area_m2_of a = 0 \<and> area_ha_of a = 0"
    by (cases "area_m2 a"; cases "area_ha a") (auto simp: area_m2_of_def area_ha_of_def num_or_def)
  from 1 2 3 4 5 6 show ?thesis by blast
qed

theorem area_units_witness:
  "start_date analysis0 = Some ''2024-01-01'' \<and> end_date analysis0 = Some ''2024-12-31''
   \<and> energy_call stages_echo analysis0 = Inr (PDict [(''area_m2'', PNum 20000)])
   \<and> area_m2 analysis0 = None \<and> area_ha analysis0 = Some 2
   \<and> area_m2_of analysis0 = 20000 \<and> area_ha_of analysis0 = 2
   \<and> (\<exists>a' d. run_pipeline stages_echo analysis0 = Inr a' \<and> energy_results a' = PDict d
        \<and> map_of d ''agri_revenue''
            = Some (PDict [(''details'', PList []), (''area_ha'', PNum 2)])
        \<and> map_of d ''mixed_analysis''
            = Some (PDict [(''scenarios'', PList []), (''area_ha'', PNum 2)]))
   \<and> area_m2 analysis_three = Some 3 \<and> area_m2_of analysis_three = 3
   \<and> area_m2 (analysis0\<lparr>area_ha := Some 0\<rparr>) = None
   \<and> area_ha (analysis0\<lparr>area_ha := Some 0\<rparr>) = Some 0
   \<and> area_m2_of (analysis0\<lparr>area_ha := Some 0\<rparr>) = 0
   \<and> area_ha_of (analysis0\<lparr>area_ha := Some 0\<rparr>) = 0"
proof -
  have d: "start_date analysis0 = Some ''2024-01-01'' \<and> end_date analysis0 = Some ''2024-12-31''"
    by (simp add: analysis0_def)
  have f: "area_m2 analysis0 = None \<and> area_ha analysis0 = Some 2
     \<and> area_m2 analysis_three = Some 3
     \<and> area_m2 (analysis0\<lparr>area_ha := Some 0\<rparr>) = None
     \<and> area_ha (analysis0\<lparr>area_ha := Some 0\<rparr>) = Some 0"
    by (simp add: analysis0_def analysis_three_def)
  obtain a' where r: "run_pipeline stages_echo analysis0 = Inr a'"
    using run_echo by blast
  note u = area_units [where a = analysis0 and sd = "''2024-01-01''" and ed = "''2024-12-31''"
      and st = stages_echo and a' = a' and m = 0 and h = 2]
  from u d have k: "energy_call stages_echo analysis0
      = estimate_energy_potential stages_echo (energy_kwargs analysis0 ''2024-01-01'' ''2024-12-31'')
    \<and> map_of (energy_kwargs analysis0 ''2024-01-01'' ''2024-12-31'') ''area_m2''
        = Some (PNum (area_m2_of analysis0))"
    by blast
  then have c: "energy_call stages_echo analysis0 = Inr (PDict [(''area_m2'', PNum 20000)])"
    by (simp add: stages_echo_def dict_get_def area_analysis0)
  from u f have "area_m2_of analysis0 = round_double (2 * 10000)" by simp
  then have m2: "area_m2_of analysis0 = 20000" by (simp only: round_double_20000)
  from u have "area_ha_of analysis0
      = (if area_m2_of analysis0 = 0 then 0 else round_double (area_m2_of analysis0 / 10000))"
    by blast
  then have "area_ha_of analysis0 = round_double (20000 / 10000)" by (simp add: m2)
  then have ha: "area_ha_of analysis0 = 2" by (simp only: round_double_2)
  from u r obtain er agri mixed where
    g: "agri = (case estimate_agri_revenue stages_echo (crop_recommendations a')
                            (PNum (area_ha_of analysis0)) of
                      Inl e \<Rightarrow> agri_default | Inr r \<Rightarrow> py_or r agri_default)"
    and x: "mixed = (case calculate_mixed_potential stages_echo (PDict er) agri
                             (PNum (area_ha_of analysis0)) of
                       Inl e \<Rightarrow> mixed_default | Inr r \<Rightarrow> py_or r mixed_default)"
    and doc: "energy_results a' = PDict
                (AList.update ''mixed_analysis'' mixed
                   (AList.update ''agri_revenue'' agri er))"
    by blast
  have g': "agri = PDict [(''details'', PList []), (''area_ha'', PNum 2)]"
    by (simp add: g stages_echo_def py_or_def ha)
  have x': "mixed = PDict [(''scenarios'', PList []), (''area_ha'', PNum 2)]"
    by (simp add: x stages_echo_def py_or_def ha)
  have l: "map_of (AList.update ''mixed_analysis'' mixed
                   (AList.update ''agri_revenue'' agri er)) ''agri_revenue'' = Some agri
         \<and> map_of (AList.update ''mixed_analysis'' mixed
                   (AList.update ''agri_revenue'' agri er)) ''mixed_analysis'' = Some mixed"
    by (simp add: update_conv')
  have run: "\<exists>a' d. run_pipeline stages_echo analysis0 = Inr a' \<and> energy_results a' = PDict d
        \<and> map_of d ''agri_revenue''
            = Some (PDict [(''details'', PList []), (''area_ha'', PNum 2)])
        \<and> map_of d ''mixed_analysis''
            = Some (PDict [(''scenarios'', PList []), (''area_ha'', PNum 2)])"
    using r doc l g' x' by blast
  from area_units [where a = analysis_three and m = 3] f
  have t: "area_m2_of analysis_three = 3" by simp
  from area_units [where a = "analysis0\<lparr>area_ha := Some 0\<rparr>"] f
  have z: "area_m2_of (analysis0\<lparr>area_ha := Some 0\<rparr>) = 0
         \<and> area_ha_of (analysis0\<lparr>area_ha := Some 0\<rparr>) = 0"
    by blast
  from d c f m2 ha run t z show ?thesis by blast
qed

end
